theory Spec2Isabelle
  imports Complex_Main "HOL-Library.Product_Lexorder"
begin

section \<open>Data model\<close>

text \<open>
  The classes of \<^verbatim>\<open>table_extractor.model.table\<close> are used by the pipeline through
  their fields only. A \<^verbatim>\<open>BorderBox\<close> is an axis-aligned rectangle in pixel units,
  a \<^verbatim>\<open>TextField\<close> is a box with its recognised text, a \<^verbatim>\<open>Cell\<close> is a box that
  also carries text fragments, a \<^verbatim>\<open>CellLinked\<close> is a cell with its grid position.
  The field \<^verbatim>\<open>text\<close> is written \<open>text_str\<close>, and the \<^verbatim>\<open>bbox\<close> fields of the
  different classes carry a prefix.
\<close>

datatype py_error = IndexError | ZeroDivisionError

record box =
  top_left_x :: int
  top_left_y :: int
  bottom_right_x :: int
  bottom_right_y :: int

record text_field =
  bbox :: box
  text_str :: string

record cell = box +
  text_boxes :: "text_field list"

record cell_linked = cell +
  row :: int
  col :: int
  row_span :: int
  col_span :: int

record structured_table =
  st_bbox :: box
  cells :: "cell_linked list"
  rows :: "cell_linked list list"
  cols :: "cell_linked list list"

record structured_table_headered =
  sh_bbox :: box
  sh_cells :: "cell_linked list"
  header :: "cell_linked list list"

text \<open>
  Modelled from the spec: the derived properties \<^verbatim>\<open>width\<close> and \<^verbatim>\<open>height\<close> of
  \<^verbatim>\<open>BorderBox\<close> are not part of the pipeline module. They are the differences of the
  corner coordinates.
\<close>

definition width :: "'a box_scheme \<Rightarrow> int" where
  "width b = bottom_right_x b - top_left_x b"

definition height :: "'a box_scheme \<Rightarrow> int" where
  "height b = bottom_right_y b - top_left_y b"

text \<open>
  Modelled from the spec: \<^verbatim>\<open>BorderBox.merge\<close> is not part of the pipeline module.
  It returns the box whose corners are the element-wise minimum and maximum of the
  corners of the two boxes.
\<close>

definition merge :: "box \<Rightarrow> box \<Rightarrow> box" where
  "merge a b =
     \<lparr> top_left_x = min (top_left_x a) (top_left_x b),
       top_left_y = min (top_left_y a) (top_left_y b),
       bottom_right_x = max (bottom_right_x a) (bottom_right_x b),
       bottom_right_y = max (bottom_right_y a) (bottom_right_y b) \<rparr>"

text \<open>
  Modelled from the spec: \<^verbatim>\<open>BorderBox.box_is_inside_another\<close> is not part of the
  pipeline module. \<open>box_is_inside_another inner outer tol\<close> holds when the corners of
  \<open>inner\<close> lie within the corners of \<open>outer\<close> expanded outward by the fraction
  \<open>tol\<close> of the width and height of \<open>outer\<close>; tolerance 0 is exact containment, and
  a box contains itself.
\<close>

definition box_is_inside_another :: "box \<Rightarrow> box \<Rightarrow> rat \<Rightarrow> bool" where
  "box_is_inside_another inner outer tol \<longleftrightarrow>
     of_int (top_left_x outer) - tol * of_int (width outer) \<le> of_int (top_left_x inner) \<and>
     of_int (top_left_y outer) - tol * of_int (height outer) \<le> of_int (top_left_y inner) \<and>
     of_int (bottom_right_x inner) \<le> of_int (bottom_right_x outer) + tol * of_int (width outer) \<and>
     of_int (bottom_right_y inner) \<le> of_int (bottom_right_y outer) + tol * of_int (height outer)"

section \<open>Digit density of a row\<close>

text \<open>
  \<^verbatim>\<open>cnt_ciphers\<close> walks over the cells, joins the texts of the fragments of each
  cell, counts the characters among \<^verbatim>\<open>0123456789\<close> and all characters, and returns
  \<^verbatim>\<open>count / all_chars_count if all_chars_count else 0.\<close>. Python's true division
  raises \<^verbatim>\<open>ZeroDivisionError\<close> on a zero divisor, so the division is a function
  into a sum type. The quotient is the exact rational; Python rounds it to the nearest
  double.
\<close>

definition truediv :: "nat \<Rightarrow> nat \<Rightarrow> py_error + rat" where
  "truediv a b = (if b = 0 then Inl ZeroDivisionError else Inr (of_nat a / of_nat b))"

definition is_cipher :: "char \<Rightarrow> bool" where
  "is_cipher c \<longleftrightarrow> c \<in> set ''0123456789''"

definition sentence :: "'a cell_scheme \<Rightarrow> string" where
  "sentence c = concat (map text_str (text_boxes c))"

fun cnt_loop :: "'a cell_scheme list \<Rightarrow> nat \<times> nat \<Rightarrow> nat \<times> nat" where
  "cnt_loop [] acc = acc"
| "cnt_loop (c # cs) (count, all_chars_count) =
     cnt_loop cs (count + length (filter is_cipher (sentence c)),
                  all_chars_count + length (sentence c))"

definition cnt_ciphers :: "'a cell_scheme list \<Rightarrow> py_error + rat" where
  "cnt_ciphers cs =
     (case cnt_loop cs (0, 0) of
        (count, all_chars_count) \<Rightarrow>
          if all_chars_count \<noteq> 0 then truediv count all_chars_count else Inr 0)"

text \<open>The text of a whole row, and the two counts the claims speak about.\<close>

definition row_text :: "'a cell_scheme list \<Rightarrow> string" where
  "row_text cs = concat (map sentence cs)"

definition digit_count :: "'a cell_scheme list \<Rightarrow> nat" where
  "digit_count cs = length (filter is_cipher (row_text cs))"

definition char_count :: "'a cell_scheme list \<Rightarrow> nat" where
  "char_count cs = length (row_text cs)"

definition density :: "'a cell_scheme list \<Rightarrow> rat" where
  "density cs = (if char_count cs = 0 then 0 else of_nat (digit_count cs) / of_nat (char_count cs))"

section \<open>Digit-density header\<close>

text \<open>
  \<^verbatim>\<open>actualize_header\<close> reads \<^verbatim>\<open>table_rows[0]\<close> (an \<^verbatim>\<open>IndexError\<close> on a table
  without rows), sets \<^verbatim>\<open>current_ciphers\<close> to the density of row 0 and walks over
  \<^verbatim>\<open>table_rows[1:]\<close>: a row whose density is greater than \<^verbatim>\<open>current_ciphers\<close>
  ends the loop, any other row is appended to the candidates. The loop never assigns
  \<^verbatim>\<open>current_ciphers\<close>.
\<close>

fun header_scan ::
  "rat \<Rightarrow> 'a cell_scheme list list \<Rightarrow> 'a cell_scheme list list \<Rightarrow>
   py_error + 'a cell_scheme list list" where
  "header_scan current_ciphers header_candidates [] = Inr header_candidates"
| "header_scan current_ciphers header_candidates (r # rs) =
     (case cnt_ciphers r of
        Inl e \<Rightarrow> Inl e
      | Inr count \<Rightarrow>
          if count > current_ciphers then Inr header_candidates
          else header_scan current_ciphers (header_candidates @ [r]) rs)"

text \<open>
  Modelled from the spec: \<^verbatim>\<open>StructuredTableHeadered.from_structured_and_rows\<close> is not
  part of the pipeline module. A headered table is the structured table, its box and its
  cells, together with the header rows.
\<close>

definition from_structured_and_rows ::
  "structured_table \<Rightarrow> cell_linked list list \<Rightarrow> structured_table_headered" where
  "from_structured_and_rows t hs = \<lparr> sh_bbox = st_bbox t, sh_cells = cells t, header = hs \<rparr>"

definition actualize_header :: "structured_table \<Rightarrow> py_error + structured_table_headered" where
  "actualize_header t =
     (case rows t of
        [] \<Rightarrow> Inl IndexError
      | r0 # rest \<Rightarrow>
          (case cnt_ciphers r0 of
             Inl e \<Rightarrow> Inl e
           | Inr count_ciphers \<Rightarrow>
               (case header_scan count_ciphers [r0] rest of
                  Inl e \<Rightarrow> Inl e
                | Inr header_candidates \<Rightarrow>
                    if length header_candidates < length (rows t)
                    then Inr (from_structured_and_rows t header_candidates)
                    else Inr \<lparr> sh_bbox = st_bbox t, sh_cells = cells t, header = [] \<rparr>)))"

text \<open>
  The scan as the specification words it: a row joins the header while its density is at
  most the density of the previous accepted row.
\<close>

fun header_scan_spec ::
  "rat \<Rightarrow> 'a cell_scheme list list \<Rightarrow> 'a cell_scheme list list \<Rightarrow>
   py_error + 'a cell_scheme list list" where
  "header_scan_spec prev acc [] = Inr acc"
| "header_scan_spec prev acc (r # rs) =
     (case cnt_ciphers r of
        Inl e \<Rightarrow> Inl e
      | Inr count \<Rightarrow>
          if count > prev then Inr acc
          else header_scan_spec count (acc @ [r]) rs)"

definition actualize_header_spec ::
  "structured_table \<Rightarrow> py_error + structured_table_headered" where
  "actualize_header_spec t =
     (case rows t of
        [] \<Rightarrow> Inl IndexError
      | r0 # rest \<Rightarrow>
          (case cnt_ciphers r0 of
             Inl e \<Rightarrow> Inl e
           | Inr d0 \<Rightarrow>
               (case header_scan_spec d0 [r0] rest of
                  Inl e \<Rightarrow> Inl e
                | Inr acc \<Rightarrow>
                    if length acc < length (rows t)
                    then Inr (from_structured_and_rows t acc)
                    else Inr \<lparr> sh_bbox = st_bbox t, sh_cells = cells t, header = [] \<rparr>)))"

section \<open>Text reconciliation\<close>

text \<open>
  \<^verbatim>\<open>merge_text_fields(paddle_t_b, poppler_t_b)\<close>: the outer loop runs over the
  second argument; for each of its fields the inner loop runs over the first argument
  and appends a merged field, setting the flag \<^verbatim>\<open>merged\<close>, whenever the field
  \<^verbatim>\<open>box_is_inside_another\<close> the first-argument field at threshold 0. A field whose
  flag stays unset goes to \<^verbatim>\<open>not_matched\<close>. The second loop appends to
  \<^verbatim>\<open>not_matched\<close> every first-argument field for which no merged field
  \<^verbatim>\<open>box_is_inside_another\<close> it. The result is \<^verbatim>\<open>merged_t_b\<close> extended by
  \<^verbatim>\<open>not_matched\<close>.
\<close>

fun merge_inner ::
  "text_field \<Rightarrow> text_field list \<Rightarrow> text_field list \<times> bool \<Rightarrow> text_field list \<times> bool" where
  "merge_inner pop_t_b [] st = st"
| "merge_inner pop_t_b (pad_t_b # pads) (merged_t_b, merged) =
     (if box_is_inside_another (bbox pop_t_b) (bbox pad_t_b) 0
      then merge_inner pop_t_b pads
             (merged_t_b @ [\<lparr> bbox = merge (bbox pad_t_b) (bbox pop_t_b),
                              text_str = text_str pop_t_b \<rparr>], True)
      else merge_inner pop_t_b pads (merged_t_b, merged))"

fun merge_outer ::
  "text_field list \<Rightarrow> text_field list \<Rightarrow> text_field list \<times> text_field list \<Rightarrow>
   text_field list \<times> text_field list" where
  "merge_outer paddle_t_b [] st = st"
| "merge_outer paddle_t_b (pop_t_b # pops) (merged_t_b, not_matched) =
     (case merge_inner pop_t_b paddle_t_b (merged_t_b, False) of
        (merged_t_b', merged) \<Rightarrow>
          merge_outer paddle_t_b pops
            (merged_t_b', if \<not> merged then not_matched @ [pop_t_b] else not_matched))"

fun exists_inner :: "text_field \<Rightarrow> text_field list \<Rightarrow> bool \<Rightarrow> bool" where
  "exists_inner pad_t_b [] ex = ex"
| "exists_inner pad_t_b (mer_t_b # mers) ex =
     exists_inner pad_t_b mers
       (if box_is_inside_another (bbox mer_t_b) (bbox pad_t_b) 0 then True else ex)"

fun unmatched_paddle ::
  "text_field list \<Rightarrow> text_field list \<Rightarrow> text_field list \<Rightarrow> text_field list" where
  "unmatched_paddle merged_t_b [] not_matched = not_matched"
| "unmatched_paddle merged_t_b (pad_t_b # pads) not_matched =
     unmatched_paddle merged_t_b pads
       (if \<not> exists_inner pad_t_b merged_t_b False then not_matched @ [pad_t_b]
        else not_matched)"

definition merge_text_fields :: "text_field list \<Rightarrow> text_field list \<Rightarrow> text_field list" where
  "merge_text_fields paddle_t_b poppler_t_b =
     (case merge_outer paddle_t_b poppler_t_b ([], []) of
        (merged_t_b, not_matched) \<Rightarrow>
          merged_t_b @ unmatched_paddle merged_t_b paddle_t_b not_matched)"

text \<open>
  The parts of the result as the specification names them: the merged fields, the fields
  of \<open>B\<close> that no field of \<open>A\<close> contains, and the fields of \<open>A\<close> that are not
  contained in any emitted merged field.
\<close>

definition contains0 :: "text_field \<Rightarrow> text_field \<Rightarrow> bool" where
  "contains0 a b \<longleftrightarrow> box_is_inside_another (bbox b) (bbox a) 0"

definition merged_for :: "text_field list \<Rightarrow> text_field \<Rightarrow> text_field list" where
  "merged_for A b =
     map (\<lambda>a. \<lparr> bbox = merge (bbox a) (bbox b), text_str = text_str b \<rparr>)
         (filter (\<lambda>a. contains0 a b) A)"

definition merged_part :: "text_field list \<Rightarrow> text_field list \<Rightarrow> text_field list" where
  "merged_part A B = concat (map (merged_for A) B)"

definition unmatched_from_B :: "text_field list \<Rightarrow> text_field list \<Rightarrow> text_field list" where
  "unmatched_from_B A B = filter (\<lambda>b. filter (\<lambda>a. contains0 a b) A = []) B"

definition unmatched_from_A :: "text_field list \<Rightarrow> text_field list \<Rightarrow> text_field list" where
  "unmatched_from_A A B = filter (\<lambda>a. filter (\<lambda>m. contains0 m a) (merged_part A B) = []) A"

text \<open>
  The fields of \<open>A\<close> that the second loop appends: those inside which no emitted merged
  field lies (the loop calls \<^verbatim>\<open>box_is_inside_another\<close> on the merged box, with the box
  of the \<open>A\<close> field as argument).
\<close>

definition passed_from_A :: "text_field list \<Rightarrow> text_field list \<Rightarrow> text_field list" where
  "passed_from_A A B = filter (\<lambda>a. filter (\<lambda>m. contains0 a m) (merged_part A B) = []) A"

text \<open>
  \<^verbatim>\<open>merge_closest_text_fields\<close>: the fields are sorted by (top, left) with Python's
  stable sort. In the loop body the statement \<^verbatim>\<open>if not curr_field: curr_field = text_field\<close>
  is followed by \<^verbatim>\<open>if curr_field:\<close>, not by \<^verbatim>\<open>else\<close>; a \<^verbatim>\<open>TextField\<close> object is
  true, so the second test always succeeds and the gap test runs for the first field
  against itself as well.
\<close>

definition field_key :: "text_field \<Rightarrow> int \<times> int" where
  "field_key x = (top_left_y (bbox x), top_left_x (bbox x))"

definition close_gap :: "text_field \<Rightarrow> text_field \<Rightarrow> bool" where
  "close_gap curr_field text_field \<longleftrightarrow>
     20 > top_left_x (bbox text_field) - bottom_right_x (bbox curr_field) \<and>
     top_left_x (bbox text_field) - bottom_right_x (bbox curr_field) > - 20"

definition join_fields :: "text_field \<Rightarrow> text_field \<Rightarrow> text_field" where
  "join_fields curr_field text_field =
     \<lparr> bbox = merge (bbox curr_field) (bbox text_field),
       text_str = text_str curr_field @ '' '' @ text_str text_field \<rparr>"

fun closest_loop ::
  "text_field list \<Rightarrow> text_field list \<times> text_field option \<Rightarrow>
   text_field list \<times> text_field option" where
  "closest_loop [] st = st"
| "closest_loop (text_field # rest) (merged_fields, curr_field) =
     (let curr_field1 = (case curr_field of None \<Rightarrow> Some text_field | Some c \<Rightarrow> Some c)
      in case curr_field1 of
           None \<Rightarrow> closest_loop rest (merged_fields, curr_field1)
         | Some c \<Rightarrow>
             if close_gap c text_field
             then closest_loop rest (merged_fields, Some (join_fields c text_field))
             else closest_loop rest (merged_fields @ [c], Some text_field))"

definition merge_closest_text_fields :: "text_field list \<Rightarrow> text_field list" where
  "merge_closest_text_fields text_fields =
     (case closest_loop (sort_key field_key text_fields) ([], None) of
        (merged_fields, None) \<Rightarrow> merged_fields
      | (merged_fields, Some c) \<Rightarrow> merged_fields @ [c])"

text \<open>
  The sweep as the specification words it: one accumulator, started from the first
  field; the next field is merged into it when the gap lies strictly between -20 and 20,
  otherwise the accumulator is flushed and restarted from the next field.
\<close>

fun sweep_reference ::
  "text_field list \<Rightarrow> text_field list \<times> text_field option \<Rightarrow>
   text_field list \<times> text_field option" where
  "sweep_reference [] st = st"
| "sweep_reference (f # rest) (out, None) = sweep_reference rest (out, Some f)"
| "sweep_reference (f # rest) (out, Some acc) =
     (if close_gap acc f then sweep_reference rest (out, Some (join_fields acc f))
      else sweep_reference rest (out @ [acc], Some f))"

definition merge_closest_reference :: "text_field list \<Rightarrow> text_field list" where
  "merge_closest_reference text_fields =
     (case sweep_reference (sort_key field_key text_fields) ([], None) of
        (out, None) \<Rightarrow> out
      | (out, Some acc) \<Rightarrow> out @ [acc])"

definition text_to_cell :: "text_field \<Rightarrow> cell" where
  "text_to_cell text_field =
     \<lparr> top_left_x = top_left_x (bbox text_field),
       top_left_y = top_left_y (bbox text_field),
       bottom_right_x = bottom_right_x (bbox text_field),
       bottom_right_y = bottom_right_y (bbox text_field),
       text_boxes = [text_field] \<rparr>"

section \<open>Grid reconstruction\<close>

text \<open>
  A \<^verbatim>\<open>Table\<close> of the classical detector has row bands and column bands, each a box
  with its cell proposals in \<^verbatim>\<open>objs\<close>; \<^verbatim>\<open>count_cells()\<close> is a method of the class,
  taken here as a field holding its value.

  \<^verbatim>\<open>bordered_to_struct\<close> collects the two edges of every band, sorts them, starts the
  merged list with \<^verbatim>\<open>v_lines[0]\<close> and \<^verbatim>\<open>v_lines[-1]\<close> (an \<^verbatim>\<open>IndexError\<close> when there
  is no band), and for \<^verbatim>\<open>i\<close> in \<^verbatim>\<open>range(0, len(v_lines[1:-1]) // 2)\<close> appends
  \<^verbatim>\<open>(v_lines[2 * i] + v_lines[2 * i + 1]) // 2\<close>: the bound counts the interior, the
  indices address the whole list. The result is \<^verbatim>\<open>sorted(list(set(...)))\<close>.
\<close>

record band =
  band_bbox :: box
  objs :: "cell list"

record bordered_table =
  tbl_bbox :: box
  tbl_rows :: "band list"
  tbl_cols :: "band list"
  count_cells :: nat

definition lines_merged :: "int list \<Rightarrow> int list" where
  "lines_merged v_lines =
     [hd v_lines, last v_lines] @
     map (\<lambda>i. (v_lines ! (2 * i) + v_lines ! (2 * i + 1)) div 2)
         [0 ..< length (butlast (tl v_lines)) div 2]"

definition snap_lines :: "int list \<Rightarrow> py_error + int list" where
  "snap_lines lines =
     (let v_lines = sort lines in
      if v_lines = [] then Inl IndexError
      else Inr (sort (remdups (lines_merged v_lines))))"

definition col_edges :: "bordered_table \<Rightarrow> int list" where
  "col_edges t = concat (map (\<lambda>c. [top_left_x (band_bbox c), bottom_right_x (band_bbox c)]) (tbl_cols t))"

definition row_edges :: "bordered_table \<Rightarrow> int list" where
  "row_edges t = concat (map (\<lambda>r. [top_left_y (band_bbox r), bottom_right_y (band_bbox r)]) (tbl_rows t))"

text \<open>
  \<^verbatim>\<open>find_grid_table\<close> and \<^verbatim>\<open>reconstruct_table_from_grid\<close> belong to another module
  and are parameters. The column edges are computed first.
\<close>

definition bordered_lines :: "bordered_table \<Rightarrow> py_error + (int list \<times> int list)" where
  "bordered_lines t =
     (case snap_lines (col_edges t) of
        Inl e \<Rightarrow> Inl e
      | Inr v_lines \<Rightarrow>
          (case snap_lines (row_edges t) of
             Inl e \<Rightarrow> Inl e
           | Inr h_lines \<Rightarrow> Inr (h_lines, v_lines)))"

definition bordered_to_struct ::
  "(int list \<Rightarrow> int list \<Rightarrow> 'g) \<Rightarrow> ('g \<Rightarrow> cell list \<Rightarrow> 't \<times> 'u) \<Rightarrow> bordered_table \<Rightarrow> py_error + 't" where
  "bordered_to_struct find_grid_table reconstruct_table_from_grid t =
     (case bordered_lines t of
        Inl e \<Rightarrow> Inl e
      | Inr (h_lines, v_lines) \<Rightarrow>
          Inr (fst (reconstruct_table_from_grid (find_grid_table h_lines v_lines)
                      (concat (map objs (tbl_rows t))))))"

text \<open>
  The snap as the specification words it: sort; keep the first and the last edge; collapse
  each consecutive pair of the interior edges (positions 1-2, 3-4, ...) into its integer
  midpoint; deduplicate and sort.
\<close>

fun pair_midpoints :: "int list \<Rightarrow> int list" where
  "pair_midpoints (a # b # xs) = (a + b) div 2 # pair_midpoints xs"
| "pair_midpoints xs = []"

definition snap_reference :: "int list \<Rightarrow> py_error + int list" where
  "snap_reference lines =
     (let s = sort lines in
      if s = [] then Inl IndexError
      else Inr (sort (remdups ([hd s, last s] @ pair_midpoints (butlast (tl s))))))"

section \<open>Classifier-based header\<close>

text \<open>
  The cell classifier \<^verbatim>\<open>HeaderChecker.get_cell_score\<close> is a collaborator and a
  parameter: it gives a cell its header score and its body score. \<^verbatim>\<open>analyse\<close> counts
  the cells whose header score is greater and compares the count with
  \<^verbatim>\<open>len(series) / 5\<close> when the line has more than 5 cells, with \<^verbatim>\<open>len(series) / 2\<close>
  otherwise.

  \<^verbatim>\<open>create_header\<close> enumerates \<^verbatim>\<open>series[:header_limit]\<close>, records for each line
  whether \<^verbatim>\<open>analyse\<close> accepts it and keeps the index of the last accepted line. The
  header is the lines of the first \<^verbatim>\<open>last_header + 1\<close> records, or empty when no line
  was accepted. A header longer than \<^verbatim>\<open>0.75 * len(series)\<close> is written to the file
  \<^verbatim>\<open>cases75.txt\<close> (the list of lines written is passed through the function) and
  replaced by the empty header.
\<close>

definition analyse :: "('c \<Rightarrow> 's::linorder \<times> 's) \<Rightarrow> 'c list \<Rightarrow> bool" where
  "analyse get_cell_score series =
     (let headers = filter (\<lambda>cell. case get_cell_score cell of
                                      (header_score, cell_score) \<Rightarrow> header_score > cell_score) series;
          thresh = 5
      in if length series > thresh
         then (of_nat (length headers) :: rat) > of_nat (length series) / of_nat thresh
         else (of_nat (length headers) :: rat) > of_nat (length series) / 2)"

fun header_loop ::
  "('c \<Rightarrow> 's::linorder \<times> 's) \<Rightarrow> (nat \<times> 'c list) list \<Rightarrow>
   (nat \<times> bool \<times> 'c list) list \<times> nat option \<Rightarrow>
   (nat \<times> bool \<times> 'c list) list \<times> nat option" where
  "header_loop get_cell_score [] st = st"
| "header_loop get_cell_score ((idx, line) # rest) (header_candidates, last_header) =
     (if analyse get_cell_score line
      then header_loop get_cell_score rest (header_candidates @ [(idx, True, line)], Some idx)
      else header_loop get_cell_score rest (header_candidates @ [(idx, False, line)], last_header))"

definition create_header ::
  "('c \<Rightarrow> 's::linorder \<times> 's) \<Rightarrow> 'c list list \<Rightarrow> nat \<Rightarrow> 'c list list list \<Rightarrow>
   'c list list \<times> 'c list list list" where
  "create_header get_cell_score series header_limit cases75 =
     (case header_loop get_cell_score (enumerate 0 (take header_limit series)) ([], None) of
        (header_candidates, last_header) \<Rightarrow>
          let header =
                (case last_header of
                   Some l \<Rightarrow> map (\<lambda>(idx, is_header, line). line) (take (l + 1) header_candidates)
                 | None \<Rightarrow> [])
          in if (of_nat (length header) :: rat) > (3 / 4) * of_nat (length series)
             then ([], cases75 @ [series])
             else (header, cases75))"

text \<open>The positions, among the scanned lines, of the lines that \<^verbatim>\<open>analyse\<close> accepts.\<close>

definition header_count :: "('c \<Rightarrow> 's::linorder \<times> 's) \<Rightarrow> 'c list \<Rightarrow> nat" where
  "header_count get_cell_score line =
     length (filter (\<lambda>c. fst (get_cell_score c) > snd (get_cell_score c)) line)"

definition header_like_positions ::
  "('c \<Rightarrow> 's::linorder \<times> 's) \<Rightarrow> 'c list list \<Rightarrow> nat \<Rightarrow> nat list" where
  "header_like_positions get_cell_score series header_limit =
     filter (\<lambda>i. analyse get_cell_score (series ! i)) [0 ..< min header_limit (length series)]"

section \<open>Output assembly\<close>

text \<open>
  The persisted page: \<^verbatim>\<open>page_to_dict\<close> and the functions it calls build nested
  dictionaries with fixed keys, which are records here. \<^verbatim>\<open>block_to_dict\<close> dispatches
  on the class of the block; the two classes it accepts are the two constructors of
  \<open>block\<close>.
\<close>

record bbox_dict =
  bd_left :: int
  bd_top :: int
  bd_height :: int
  bd_width :: int

record cell_dict =
  cd_row :: int
  cd_column :: int
  cd_rowspan :: int
  cd_colspan :: int
  cd_bbox :: bbox_dict
  cd_text :: string

datatype block_dict =
    Table_dict bbox_dict "cell_dict list" "cell_dict list"
  | Text_dict bbox_dict string

record page_dict =
  pd_page_num :: int
  pd_bbox :: bbox_dict
  pd_blocks :: "block_dict list"

datatype block = Table_block structured_table_headered | Text_block text_field

record page =
  page_num :: int
  page_bbox :: box
  tables :: "structured_table_headered list"
  texts :: "text_field list"

text \<open>
  Modelled from the spec: the class \<^verbatim>\<open>Page\<close> is not part of the pipeline module. A
  page owns its ordered tables and its ordered free-text blocks, both empty when the page
  is created; its blocks are the tables followed by the text blocks.
\<close>

definition new_page :: "int \<Rightarrow> box \<Rightarrow> page" where
  "new_page n b = \<lparr> page_num = n, page_bbox = b, tables = [], texts = [] \<rparr>"

definition page_blocks :: "page \<Rightarrow> block list" where
  "page_blocks p = map Table_block (tables p) @ map Text_block (texts p)"

definition box_to_dict :: "'a box_scheme \<Rightarrow> bbox_dict" where
  "box_to_dict b =
     \<lparr> bd_left = top_left_x b, bd_top = top_left_y b, bd_height = height b, bd_width = width b \<rparr>"

fun join_space :: "string list \<Rightarrow> string" where
  "join_space [] = []"
| "join_space [x] = x"
| "join_space (x # y # ys) = x @ '' '' @ join_space (y # ys)"

definition cell_to_dict :: "cell_linked \<Rightarrow> cell_dict" where
  "cell_to_dict c =
     \<lparr> cd_row = row c, cd_column = col c, cd_rowspan = row_span c, cd_colspan = col_span c,
       cd_bbox = box_to_dict c,
       cd_text = join_space (map text_str (sort_key field_key (text_boxes c))) \<rparr>"

definition table_to_dict :: "structured_table_headered \<Rightarrow> block_dict" where
  "table_to_dict t =
     Table_dict (box_to_dict (sh_bbox t))
       (map cell_to_dict (concat (header t)))
       (map cell_to_dict (sh_cells t))"

definition text_to_dict :: "text_field \<Rightarrow> block_dict" where
  "text_to_dict t = Text_dict (box_to_dict (bbox t)) (text_str t)"

fun block_to_dict :: "block \<Rightarrow> block_dict" where
  "block_to_dict (Table_block t) = table_to_dict t"
| "block_to_dict (Text_block t) = text_to_dict t"

definition page_to_dict :: "page \<Rightarrow> page_dict" where
  "page_to_dict p =
     \<lparr> pd_page_num = page_num p, pd_bbox = box_to_dict (page_bbox p),
       pd_blocks = map block_to_dict (page_blocks p) \<rparr>"

section \<open>Page processing\<close>

text \<open>
  The detectors, the recognition engine, the matching functions of the other modules and
  the header classifier are collaborators: fields of one record, functions of their
  arguments (the method \<^verbatim>\<open>extract\<close> of the recognition engine is \<open>extract_text\<close>,
  or \<open>extract_sparse\<close> when the engine is opened in sparse-text mode). What a collaborator may write into an object passed to it is not visible in
  this module and is not modelled. The calls that reach a detector or the recognition
  engine are recorded, in order, as events. The visualizer only writes images and is left
  out.

  \<^verbatim>\<open>inf_table.label\<close> is compared with the strings \<^verbatim>\<open>'Bordered'\<close> and
  \<^verbatim>\<open>'Borderless'\<close>. The default threshold of \<^verbatim>\<open>box_is_inside_another\<close> is a
  constant of the absent class and a field of the record.
\<close>

record inference_table =
  inf_bbox :: box
  tags :: "cell list"
  label :: string

datatype event =
    Ev_inference_image
  | Ev_extract_table_text box
  | Ev_semi_bordered box
  | Ev_detect_tables_on_page
  | Ev_extract_region box
  | Ev_extract box
  | Ev_extract_sparse box

record 'p collaborators =
  image_page_num :: int
  img_shape :: "int \<times> int"
  poppler_height :: int
  poppler_text_fields :: "'p list"
  poppler_text_field_to_text_field :: "'p \<Rightarrow> rat \<Rightarrow> text_field"
  inference_image :: "inference_table list"
  match_table_text :: "box \<Rightarrow> text_field list \<Rightarrow> text_field list \<times> text_field list"
  extract_table_text :: "box \<Rightarrow> text_field list"
  match_cells_text_fields :: "cell list \<Rightarrow> text_field list \<Rightarrow> int \<times> text_field list"
  semi_bordered :: "inference_table \<Rightarrow> bordered_table option"
  construct_table_from_cells :: "box \<Rightarrow> cell list \<Rightarrow> int \<times> int \<Rightarrow> structured_table option"
  extract_region :: "int \<Rightarrow> int \<Rightarrow> int \<Rightarrow> int \<Rightarrow> (int \<times> int \<times> int \<times> int) list"
  detect_tables_on_page :: "bordered_table list"
  default_threshold :: rat
  extract_text :: "int \<Rightarrow> int \<Rightarrow> int \<Rightarrow> int \<Rightarrow> string"
  extract_sparse :: "int \<Rightarrow> int \<Rightarrow> int \<Rightarrow> int \<Rightarrow> string"
  get_cell_score :: "cell_linked \<Rightarrow> rat \<times> rat"
  actualize_header_with_cols ::
    "structured_table_headered \<Rightarrow> cell_linked list list \<Rightarrow> structured_table_headered"

definition box_of :: "'a box_scheme \<Rightarrow> box" where
  "box_of b =
     \<lparr> top_left_x = top_left_x b, top_left_y = top_left_y b,
       bottom_right_x = bottom_right_x b, bottom_right_y = bottom_right_y b \<rparr>"

text \<open>
  \<^verbatim>\<open>_scale_poppler_result\<close> divides the image height by the height of the text layer
  and converts every field of the layer with that scale.
\<close>

definition scale_poppler_result :: "'p collaborators \<Rightarrow> py_error + text_field list" where
  "scale_poppler_result env =
     (if poppler_height env = 0 then Inl ZeroDivisionError
      else Inr (map (\<lambda>f. poppler_text_field_to_text_field env f
                            (of_int (fst (img_shape env)) / of_int (poppler_height env)))
                    (poppler_text_fields env)))"

definition semi_border_to_struct :: "'p collaborators \<Rightarrow> bordered_table \<Rightarrow> structured_table option" where
  "semi_border_to_struct env semi_border =
     construct_table_from_cells env (tbl_bbox semi_border)
       (concat (map objs (tbl_rows semi_border))) (img_shape env)"

definition match_cells_table :: "'p collaborators \<Rightarrow> text_field list \<Rightarrow> bordered_table \<Rightarrow> int" where
  "match_cells_table env text_fields t =
     fst (match_cells_text_fields env (concat (map objs (tbl_rows t))) text_fields)"

text \<open>
  \<^verbatim>\<open>extract_table_from_inference\<close>: the unmatched text is sorted and coalesced; every
  proposal cell with text fragments takes the box of its fragment, or the box enclosing
  its fragments; the coalesced fields are promoted to cells; every cell is then cut down
  to the regions the recognition engine finds inside it, when it finds any.
\<close>

definition fit_to_text_boxes :: "cell \<Rightarrow> cell" where
  "fit_to_text_boxes c =
     (case text_boxes c of
        [] \<Rightarrow> c
      | [t] \<Rightarrow>
          c\<lparr> top_left_x := top_left_x (bbox t), top_left_y := top_left_y (bbox t),
             bottom_right_x := bottom_right_x (bbox t), bottom_right_y := bottom_right_y (bbox t) \<rparr>
      | t # ts \<Rightarrow>
          c\<lparr> top_left_x := Min (set (map (\<lambda>b. top_left_x (bbox b)) (t # ts))),
             top_left_y := Min (set (map (\<lambda>b. top_left_y (bbox b)) (t # ts))),
             bottom_right_x := Max (set (map (\<lambda>b. bottom_right_x (bbox b)) (t # ts))),
             bottom_right_y := Max (set (map (\<lambda>b. bottom_right_y (bbox b)) (t # ts))) \<rparr>)"

definition fit_to_regions :: "(int \<times> int \<times> int \<times> int) list \<Rightarrow> cell \<Rightarrow> cell" where
  "fit_to_regions region c =
     (if region = [] then c
      else
        let regions = map (\<lambda>(x, y, w, h). (x, y, x + w, y + h)) region;
            brx = min (top_left_x c + Max (set (map (\<lambda>(x, y, x2, y2). x2) regions))) (bottom_right_x c);
            bry = min (top_left_y c + Max (set (map (\<lambda>(x, y, x2, y2). y2) regions))) (bottom_right_y c);
            tlx = max (top_left_x c + Min (set (map (\<lambda>(x, y, x2, y2). x) regions))) (top_left_x c);
            tly = max (top_left_y c + Min (set (map (\<lambda>(x, y, x2, y2). y) regions))) (top_left_y c)
        in c\<lparr> bottom_right_x := brx, bottom_right_y := bry, top_left_x := tlx, top_left_y := tly \<rparr>)"

definition extract_table_from_inference ::
  "'p collaborators \<Rightarrow> inference_table \<Rightarrow> text_field list \<Rightarrow> structured_table option \<times> event list" where
  "extract_table_from_inference env inf_table not_matched_text =
     (let merged_t_fields = merge_closest_text_fields (sort_key field_key not_matched_text);
          tags1 = map fit_to_text_boxes (tags inf_table) @ map text_to_cell merged_t_fields;
          tags2 = map (\<lambda>c. fit_to_regions
                              (extract_region env (top_left_x c) (top_left_y c) (width c) (height c)) c)
                      tags1
      in (construct_table_from_cells env (inf_bbox inf_table) tags2 (img_shape env),
          map (\<lambda>c. Ev_extract_region (box_of c)) tags1))"

text \<open>
  Both loops of \<^verbatim>\<open>process_page\<close> match a box against the pool of text fields, ask
  the scene-text detector for the fields of the same box and, when it returns any,
  reconcile the two sets with \<^verbatim>\<open>merge_text_fields\<close>.
\<close>

definition reconcile ::
  "'p collaborators \<Rightarrow> box \<Rightarrow> text_field list \<Rightarrow> text_field list \<times> text_field list" where
  "reconcile env b text_fields_to_match =
     (case match_table_text env b text_fields_to_match of
        (in_table, rest) \<Rightarrow>
          (let paddle_fields = extract_table_text env b
           in (if paddle_fields \<noteq> [] then merge_text_fields paddle_fields in_table else in_table,
               rest)))"

text \<open>
  The body of the loop over the detected regions. The state is the pool of unmatched
  text fields, the list \<^verbatim>\<open>detected_tables\<close> of scored candidates and the events.
  \<open>mask_build\<close> is the tail of the body, reached unless the semi-bordered branch ends
  the iteration with \<^verbatim>\<open>continue\<close>.
\<close>

type_synonym region_state = "text_field list \<times> (int \<times> structured_table) list \<times> event list"

definition mask_build ::
  "'p collaborators \<Rightarrow> inference_table \<Rightarrow> int \<Rightarrow> text_field list \<Rightarrow> region_state \<Rightarrow> region_state" where
  "mask_build env inf_table mask_rcnn_count_matches not_matched st =
     (case st of
        (pool, detected_tables, evs) \<Rightarrow>
          (case extract_table_from_inference env inf_table not_matched of
             (struct, evs') \<Rightarrow>
               (pool,
                (case struct of
                   Some s \<Rightarrow> detected_tables @ [(mask_rcnn_count_matches, s)]
                 | None \<Rightarrow> detected_tables),
                evs @ evs')))"

definition region_step :: "'p collaborators \<Rightarrow> inference_table \<Rightarrow> region_state \<Rightarrow> region_state" where
  "region_step env inf_table st =
     (case st of
        (text_fields_to_match, detected_tables, evs) \<Rightarrow>
          (case reconcile env (inf_bbox inf_table) text_fields_to_match of
             (in_inf_table, pool) \<Rightarrow>
               (case match_cells_text_fields env (tags inf_table) in_inf_table of
                  (mask_rcnn_count_matches, not_matched) \<Rightarrow>
                    (let evs1 = evs @ [Ev_extract_table_text (inf_bbox inf_table)] in
                     if label inf_table = ''Borderless''
                     then
                       (let evs2 = evs1 @ [Ev_semi_bordered (inf_bbox inf_table)] in
                        case semi_bordered env inf_table of
                          None \<Rightarrow>
                            mask_build env inf_table mask_rcnn_count_matches not_matched
                              (pool, detected_tables, evs2)
                        | Some semi_border \<Rightarrow>
                            (let semi_border_score = match_cells_table env in_inf_table semi_border in
                             if semi_border_score \<ge> mask_rcnn_count_matches \<and>
                                count_cells semi_border > length (tags inf_table)
                             then
                               (pool,
                                (case semi_border_to_struct env semi_border of
                                   Some struct_table \<Rightarrow>
                                     detected_tables @ [(semi_border_score, struct_table)]
                                 | None \<Rightarrow> detected_tables),
                                evs2)
                             else
                               mask_build env inf_table mask_rcnn_count_matches not_matched
                                 (pool, detected_tables, evs2)))
                     else
                       mask_build env inf_table mask_rcnn_count_matches not_matched
                         (pool, detected_tables, evs1)))))"

text \<open>
  The body of the loop over the tables of the classical detector. The inner loop looks
  for the first candidate whose box \<^verbatim>\<open>box_is_inside_another\<close> the box of the bordered
  table, decides between the reconstruction of the bordered table and the candidate,
  removes the pair from \<^verbatim>\<open>detected_tables\<close> and breaks. The comparisons are
  \<^verbatim>\<open>bordered_score >= score * 0.5\<close> and
  \<^verbatim>\<open>bordered_table.count_cells() >= len(inf_table.cells) * 0.5\<close>.
\<close>

type_synonym bordered_state =
  "structured_table list \<times> text_field list \<times> (int \<times> structured_table) list \<times> event list"

definition candidate_inside ::
  "'p collaborators \<Rightarrow> bordered_table \<Rightarrow> int \<times> structured_table \<Rightarrow> bool" where
  "candidate_inside env bordered_table c =
     box_is_inside_another (st_bbox (snd c)) (tbl_bbox bordered_table) (default_threshold env)"

definition adopt_bordered :: "int \<Rightarrow> int \<Rightarrow> nat \<Rightarrow> nat \<Rightarrow> bool" where
  "adopt_bordered bordered_score score bordered_cells candidate_cells \<longleftrightarrow>
     (of_int bordered_score :: rat) \<ge> of_int score * (1 / 2) \<and>
     (of_nat bordered_cells :: rat) \<ge> of_nat candidate_cells * (1 / 2)"

definition bordered_step :: "'p collaborators \<Rightarrow> bordered_table \<Rightarrow> bordered_state \<Rightarrow> bordered_state" where
  "bordered_step env bordered_table st =
     (case st of
        (page_tables, text_fields_to_match, detected_tables, evs) \<Rightarrow>
          (case find (candidate_inside env bordered_table) detected_tables of
             Some (score, inf_table) \<Rightarrow>
               (case reconcile env (st_bbox inf_table) text_fields_to_match of
                  (in_table, pool) \<Rightarrow>
                    (let bordered_score = match_cells_table env in_table bordered_table in
                     ((if adopt_bordered bordered_score score (count_cells bordered_table)
                            (length (cells inf_table))
                       then (case semi_border_to_struct env bordered_table of
                               Some struct_table \<Rightarrow> page_tables @ [struct_table]
                             | None \<Rightarrow> page_tables)
                       else page_tables @ [inf_table]),
                      pool,
                      remove1 (score, inf_table) detected_tables,
                      evs @ [Ev_extract_table_text (st_bbox inf_table)])))
           | None \<Rightarrow>
               (case match_table_text env (tbl_bbox bordered_table) text_fields_to_match of
                  (in_table, pool) \<Rightarrow>
                    ((case semi_border_to_struct env bordered_table of
                        Some struct_table \<Rightarrow> page_tables @ [struct_table]
                      | None \<Rightarrow> page_tables),
                     pool, detected_tables, evs))))"

definition quality_gate :: "bool \<Rightarrow> (int \<times> structured_table) list \<Rightarrow> bool" where
  "quality_gate has_bordered detected_tables \<longleftrightarrow>
     has_bordered \<or>
     list_ex (\<lambda>(score, t). (of_int score :: rat) < (1 / 5) * of_nat (length (cells t)))
       detected_tables"

definition final_tables ::
  "'p collaborators \<Rightarrow> bool \<Rightarrow> text_field list \<Rightarrow> (int \<times> structured_table) list \<Rightarrow>
   structured_table list \<times> event list" where
  "final_tables env has_bordered text_fields detected_tables =
     (if quality_gate has_bordered detected_tables
      then
        (if detect_tables_on_page env \<noteq> []
         then
           (case fold (bordered_step env) (detect_tables_on_page env)
                   ([], text_fields, detected_tables, [Ev_detect_tables_on_page]) of
              (page_tables, pool, remaining, evs) \<Rightarrow> (page_tables @ map snd remaining, evs))
         else (map snd detected_tables, [Ev_detect_tables_on_page]))
      else (map snd detected_tables, []))"

text \<open>
  \<^verbatim>\<open>actualize_text\<close> appends to every cell without text fragments, or with an empty
  fragment, the text the recognition engine reads in the rectangle of the cell. The rows
  and the columns of a table hold the cells of \<^verbatim>\<open>table.cells\<close>, so the three views
  change together.
\<close>

definition needs_text :: "'a cell_scheme \<Rightarrow> bool" where
  "needs_text c \<longleftrightarrow> text_boxes c = [] \<or> list_ex (\<lambda>text_box. text_str text_box = []) (text_boxes c)"

definition actualize_cell :: "'p collaborators \<Rightarrow> cell_linked \<Rightarrow> cell_linked" where
  "actualize_cell env c =
     (if needs_text c
      then c\<lparr> text_boxes := text_boxes c @
                [\<lparr> bbox = box_of c,
                   text_str = extract_text env (top_left_x c) (top_left_y c) (width c) (height c) \<rparr>] \<rparr>
      else c)"

definition actualize_text :: "'p collaborators \<Rightarrow> structured_table \<Rightarrow> structured_table \<times> event list" where
  "actualize_text env t =
     (t\<lparr> cells := map (actualize_cell env) (cells t),
         rows := map (map (actualize_cell env)) (rows t),
         cols := map (map (actualize_cell env)) (cols t) \<rparr>,
      map (\<lambda>c. Ev_extract (box_of c)) (filter needs_text (cells t)))"

definition with_headers :: "'p collaborators \<Rightarrow> structured_table \<Rightarrow> structured_table_headered" where
  "with_headers env t =
     (case create_header (get_cell_score env) (rows t) 6 [] of
        (header_rows, cases75) \<Rightarrow>
          (case create_header (get_cell_score env) (cols t) 5 cases75 of
             (header_cols, cases75') \<Rightarrow>
               actualize_header_with_cols env (from_structured_and_rows t header_rows) header_cols))"

text \<open>
  The free text: the horizontal strips between 1, the top and bottom edges of the tables
  in order, and the image height; a strip higher than 3 pixels is read in sparse-text
  mode, and a text that is not empty becomes a text block.
\<close>

definition text_borders :: "'p collaborators \<Rightarrow> structured_table_headered list \<Rightarrow> int list" where
  "text_borders env ts =
     [1] @ concat (map (\<lambda>t. [top_left_y (sh_bbox t), bottom_right_y (sh_bbox t)]) ts) @
     [fst (img_shape env)]"

definition text_candidate_boxes :: "'p collaborators \<Rightarrow> structured_table_headered list \<Rightarrow> box list" where
  "text_candidate_boxes env ts =
     (let tb = text_borders env ts in
      map (\<lambda>i. \<lparr> top_left_x = 1, top_left_y = tb ! (i * 2),
                  bottom_right_x = snd (img_shape env), bottom_right_y = tb ! (i * 2 + 1) \<rparr>)
          (filter (\<lambda>i. tb ! (i * 2 + 1) - tb ! (i * 2) > 3) [0 ..< length tb div 2]))"

definition free_text :: "'p collaborators \<Rightarrow> box list \<Rightarrow> text_field list \<times> event list" where
  "free_text env boxes =
     (filter (\<lambda>t. text_str t \<noteq> [])
        (map (\<lambda>b. \<lparr> bbox = b,
                     text_str = extract_sparse env (top_left_x b) (top_left_y b) (width b) (height b) \<rparr>)
             boxes),
      map Ev_extract_sparse boxes)"

definition process_page :: "'p collaborators \<Rightarrow> py_error + (page_dict \<times> event list)" where
  "process_page env =
     (let page = new_page (image_page_num env)
                   \<lparr> top_left_x = 0, top_left_y = 0,
                     bottom_right_x = snd (img_shape env), bottom_right_y = fst (img_shape env) \<rparr>
      in case scale_poppler_result env of
           Inl e \<Rightarrow> Inl e
         | Inr text_fields \<Rightarrow>
             (let inference_tables = inference_image env in
              if inference_tables = [] then Inr (page_to_dict page, [Ev_inference_image])
              else
                (let has_bordered = list_ex (\<lambda>i_tab. label i_tab = ''Bordered'') inference_tables in
                 case fold (region_step env) inference_tables (text_fields, [], [Ev_inference_image]) of
                   (pool, detected_tables, evs1) \<Rightarrow>
                     (case final_tables env has_bordered text_fields detected_tables of
                        (page_tables, evs2) \<Rightarrow>
                          (let actualized = map (actualize_text env) page_tables;
                               tables_with_header = map (with_headers env) (map fst actualized);
                               evs3 = concat (map snd actualized)
                           in case free_text env (text_candidate_boxes env tables_with_header) of
                                (page_text, evs4) \<Rightarrow>
                                  Inr (page_to_dict (page\<lparr> tables := tables_with_header,
                                                           texts := page_text \<rparr>),
                                       evs1 @ evs2 @ evs3 @ evs4))))))"

section \<open>Concrete inputs\<close>

text \<open>Inputs on which the functions are evaluated below.\<close>

definition mk_box :: "int \<Rightarrow> int \<Rightarrow> int \<Rightarrow> int \<Rightarrow> box" where
  "mk_box x1 y1 x2 y2 =
     \<lparr> top_left_x = x1, top_left_y = y1, bottom_right_x = x2, bottom_right_y = y2 \<rparr>"

definition field_at :: "int \<Rightarrow> int \<Rightarrow> int \<Rightarrow> int \<Rightarrow> string \<Rightarrow> text_field" where
  "field_at x1 y1 x2 y2 s = \<lparr> bbox = mk_box x1 y1 x2 y2, text_str = s \<rparr>"

definition mk_cell :: "string \<Rightarrow> cell_linked" where
  "mk_cell s =
     \<lparr> top_left_x = 0, top_left_y = 0, bottom_right_x = 1, bottom_right_y = 1,
       text_boxes = [field_at 0 0 1 1 s], row = 0, col = 0, row_span = 1, col_span = 1 \<rparr>"

text \<open>A table of four one-cell rows with the digit densities 1/2, 0, 1/4 and 1.\<close>

definition density_table :: structured_table where
  "density_table =
     \<lparr> st_bbox = mk_box 0 0 1 1, cells = [],
       rows = [[mk_cell ''1a''], [mk_cell ''ab''], [mk_cell ''1abc''], [mk_cell ''11'']],
       cols = [] \<rparr>"

text \<open>A field 10 pixels wide and a field 100 pixels wide.\<close>

definition narrow_field :: text_field where
  "narrow_field = field_at 0 0 10 10 ''ab''"

definition wide_field :: text_field where
  "wide_field = field_at 0 0 100 10 ''ab''"

text \<open>Three abutting row bands and three abutting column bands, each 10 pixels.\<close>

definition mk_band :: "box \<Rightarrow> band" where
  "mk_band b = \<lparr> band_bbox = b, objs = [] \<rparr>"

definition three_bands :: bordered_table where
  "three_bands =
     \<lparr> tbl_bbox = mk_box 0 0 30 30,
       tbl_rows = [mk_band (mk_box 0 0 30 10), mk_band (mk_box 0 10 30 20),
                   mk_band (mk_box 0 20 30 30)],
       tbl_cols = [mk_band (mk_box 0 0 10 30), mk_band (mk_box 10 0 20 30),
                   mk_band (mk_box 20 0 30 30)],
       count_cells = 0 \<rparr>"

text \<open>
  Two text-field sets: the first field of the second set lies in two fields of the first
  set, the second in none; the third field of the first set contains no field.
\<close>

definition paddle_fields_ex :: "text_field list" where
  "paddle_fields_ex =
     [field_at 0 0 100 100 ''A1'', field_at 0 0 50 50 ''A2'', field_at 200 200 210 210 ''A3'']"

definition poppler_fields_ex :: "text_field list" where
  "poppler_fields_ex = [field_at 10 10 20 20 ''B1'', field_at 300 300 310 310 ''B2'']"

text \<open>
  A first set with a field nested in another one, and a second set whose only field lies
  in the outer field alone.
\<close>

definition nested_fields_ex :: "text_field list" where
  "nested_fields_ex = [field_at 0 0 100 100 ''A1'', field_at 50 50 60 60 ''A2'']"

definition inner_fields_ex :: "text_field list" where
  "inner_fields_ex = [field_at 10 10 20 20 ''B1'']"

text \<open>
  A classifier on truth values, and ten one-cell lines of which the lines 0, 1, 2 and 4
  are header-like.
\<close>

definition flag_score :: "bool \<Rightarrow> nat \<times> nat" where
  "flag_score b = (if b then (1, 0) else (0, 1))"

definition ten_rows :: "bool list list" where
  "ten_rows =
     [[True], [True], [True], [False], [True], [False], [False], [False], [False], [False]]"

text \<open>
  Collaborators for one page of 800 by 1000 pixels whose text layer holds one field. The
  matching score of five cells is 4, of any other number of cells \<open>k\<close>; the
  semi-bordered reconstruction of a region has six cells; a table built from cells has as
  many cells as it was given.
\<close>

definition proposal :: cell where
  "proposal =
     \<lparr> top_left_x = 0, top_left_y = 0, bottom_right_x = 10, bottom_right_y = 10,
       text_boxes = [] \<rparr>"

definition grid_cell :: cell_linked where
  "grid_cell =
     \<lparr> top_left_x = 0, top_left_y = 0, bottom_right_x = 10, bottom_right_y = 10,
       text_boxes = [], row = 0, col = 0, row_span = 1, col_span = 1 \<rparr>"

definition plain_table :: "box \<Rightarrow> nat \<Rightarrow> structured_table" where
  "plain_table b n = \<lparr> st_bbox = b, cells = replicate n grid_cell, rows = [], cols = [] \<rparr>"

definition band_of :: "box \<Rightarrow> nat \<Rightarrow> band" where
  "band_of b n = \<lparr> band_bbox = b, objs = replicate n proposal \<rparr>"

definition lined_table :: "box \<Rightarrow> nat \<Rightarrow> bordered_table" where
  "lined_table b n = \<lparr> tbl_bbox = b, tbl_rows = [band_of b n], tbl_cols = [], count_cells = n \<rparr>"

definition borderless_region :: inference_table where
  "borderless_region =
     \<lparr> inf_bbox = mk_box 0 0 100 100, tags = replicate 5 proposal, label = ''Borderless'' \<rparr>"

definition demo_env ::
  "int \<Rightarrow> inference_table list \<Rightarrow> bordered_table list \<Rightarrow> text_field collaborators" where
  "demo_env k regions bordered =
     \<lparr> image_page_num = 1, img_shape = (1000, 800), poppler_height = 500,
       poppler_text_fields = [narrow_field],
       poppler_text_field_to_text_field = (\<lambda>f s. f),
       inference_image = regions,
       match_table_text = (\<lambda>b pool. ([], pool)),
       extract_table_text = (\<lambda>b. []),
       match_cells_text_fields = (\<lambda>cs fs. (if length cs = 5 then 4 else k, [])),
       semi_bordered = (\<lambda>t. Some (lined_table (mk_box 0 0 90 90) 6)),
       construct_table_from_cells = (\<lambda>b cs shape. Some (plain_table b (length cs))),
       extract_region = (\<lambda>x y w h. []),
       detect_tables_on_page = bordered,
       default_threshold = 9 / 10,
       extract_text = (\<lambda>x y w h. ''t''),
       extract_sparse = (\<lambda>x y w h. ''free text''),
       get_cell_score = (\<lambda>c. (0, 1)),
       actualize_header_with_cols = (\<lambda>t hs. t) \<rparr>"

text \<open>
  The same collaborators with a table builder that returns no table, and a bordered
  table of four cells whose two row bands and two column bands meet at \<open>y\<close>.
\<close>

definition no_table_env :: "int \<Rightarrow> text_field collaborators" where
  "no_table_env k = (demo_env k [] [])\<lparr> construct_table_from_cells := (\<lambda>b cs shape. None) \<rparr>"

definition banded_table :: "int \<Rightarrow> bordered_table" where
  "banded_table y =
     \<lparr> tbl_bbox = mk_box 0 0 100 100,
       tbl_rows = [band_of (mk_box 0 0 100 y) 2, band_of (mk_box 0 y 100 100) 2],
       tbl_cols = [mk_band (mk_box 0 0 y 100), mk_band (mk_box y 0 100 100)],
       count_cells = 4 \<rparr>"

section \<open>Properties of the digit density\<close>

lemma cnt_loop_acc:
  "cnt_loop cs (n, m) = (n + digit_count cs, m + char_count cs)"
  by (induction cs arbitrary: n m) (simp_all add: digit_count_def char_count_def row_text_def)

lemma cnt_ciphers_density: "cnt_ciphers cs = Inr (density cs)"
  by (simp add: cnt_ciphers_def cnt_loop_acc truediv_def density_def)

text \<open>
  C9. \<^verbatim>\<open>cnt_ciphers\<close> always returns a value, never the division error: 0 when the
  cells hold no character at all, otherwise the number of digits divided by the number of
  characters.
\<close>

theorem cnt_ciphers_total:
  "cnt_ciphers cs =
     Inr (if char_count cs = 0 then 0 else of_nat (digit_count cs) / of_nat (char_count cs))"
  by (simp add: cnt_ciphers_def cnt_loop_acc truediv_def)

section \<open>Properties of the digit-density header\<close>

text \<open>
  The scan of \<^verbatim>\<open>actualize_header\<close> compares every row with the density it was started
  with: it accepts the longest prefix of rows whose density is at most that value.
\<close>

lemma header_scan_takeWhile:
  "header_scan d acc rs = Inr (acc @ takeWhile (\<lambda>r. density r \<le> d) rs)"
  by (induction rs arbitrary: acc) (simp_all add: cnt_ciphers_density not_less)

lemma density_table_rows:
  "map density (rows density_table) = [1 / 2, 0, 1 / 4, 1]"
  by (simp add: density_table_def density_def char_count_def digit_count_def row_text_def
      sentence_def mk_cell_def field_at_def is_cipher_def)

text \<open>
  C2. On the rows of \<open>density_table\<close>, with the densities 1/2, 0, 1/4 and 1,
  \<^verbatim>\<open>actualize_header\<close> makes the first three rows the header: row 2 (density 1/4) is
  compared with the density 1/2 of row 0, not with the density 0 of row 1, the previous
  accepted row. The scan that compares with the previous accepted row stops at row 2 and
  gives a header of two rows.
\<close>

theorem actualize_header_first_row_density:
  "map density (rows density_table) = [1 / 2, 0, 1 / 4, 1]
   \<and> map_sum id header (actualize_header density_table) = Inr (take 3 (rows density_table))
   \<and> map_sum id header (actualize_header_spec density_table) = Inr (take 2 (rows density_table))"
proof -
  have d: "cnt_ciphers [mk_cell ''1a''] = Inr (1 / 2)" "cnt_ciphers [mk_cell ''ab''] = Inr 0"
    "cnt_ciphers [mk_cell ''1abc''] = Inr (1 / 4)" "cnt_ciphers [mk_cell ''11''] = Inr 1"
    by (simp_all add: cnt_ciphers_def sentence_def mk_cell_def field_at_def is_cipher_def
        truediv_def)
  have "map_sum id header (actualize_header density_table) = Inr (take 3 (rows density_table))"
    by (simp add: actualize_header_def density_table_def d from_structured_and_rows_def)
  moreover
  have "map_sum id header (actualize_header_spec density_table) = Inr (take 2 (rows density_table))"
    by (simp add: actualize_header_spec_def density_table_def d from_structured_and_rows_def)
  ultimately show ?thesis using density_table_rows by simp
qed

section \<open>Properties of the text reconciliation\<close>

text \<open>
  C3. \<^verbatim>\<open>merge_closest_text_fields\<close> on the single field \<open>narrow_field\<close> (10 pixels
  wide, text \<^verbatim>\<open>ab\<close>) returns one field with the text \<^verbatim>\<open>ab ab\<close>: the field is merged
  with itself. On the single field \<open>wide_field\<close> (100 pixels wide) it returns the field
  twice. The reference sweep returns the input field in both cases.
\<close>

theorem merge_closest_first_field_twice:
  "merge_closest_text_fields [narrow_field] = [field_at 0 0 10 10 ''ab ab'']
   \<and> merge_closest_reference [narrow_field] = [narrow_field]
   \<and> merge_closest_text_fields [wide_field] = [wide_field, wide_field]
   \<and> merge_closest_reference [wide_field] = [wide_field]"
  by (simp add: merge_closest_text_fields_def merge_closest_reference_def narrow_field_def
      wide_field_def field_at_def mk_box_def close_gap_def join_fields_def merge_def)

lemma inside0_iff:
  "box_is_inside_another i outer 0 \<longleftrightarrow>
     top_left_x outer \<le> top_left_x i \<and> top_left_y outer \<le> top_left_y i \<and>
     bottom_right_x i \<le> bottom_right_x outer \<and> bottom_right_y i \<le> bottom_right_y outer"
  by (simp add: box_is_inside_another_def)

lemma merge_absorb: "box_is_inside_another b a 0 \<Longrightarrow> merge a b = a"
  by (simp add: inside0_iff merge_def min_def max_def)

text \<open>The loops of \<^verbatim>\<open>merge_text_fields\<close> in closed form.\<close>

lemma merge_inner_eq:
  "merge_inner b A (m, flag) =
     (m @ merged_for A b, flag \<or> filter (\<lambda>a. contains0 a b) A \<noteq> [])"
  by (induction A arbitrary: m flag) (simp_all add: merged_for_def contains0_def)

lemma merge_outer_eq:
  "merge_outer A B (m, nm) = (m @ merged_part A B, nm @ unmatched_from_B A B)"
  by (induction B arbitrary: m nm)
     (simp_all add: merge_inner_eq merged_part_def unmatched_from_B_def)

lemma exists_inner_eq:
  "exists_inner a ms e \<longleftrightarrow> e \<or> (\<exists>m\<in>set ms. contains0 a m)"
  by (induction ms arbitrary: e) (auto simp: contains0_def)

lemma unmatched_paddle_eq:
  "unmatched_paddle ms A nm = nm @ filter (\<lambda>a. \<not> (\<exists>m\<in>set ms. contains0 a m)) A"
  by (induction A arbitrary: nm) (simp_all add: exists_inner_eq)

lemma set_merged_part:
  "set (merged_part A B) =
     {\<lparr> bbox = merge (bbox a) (bbox b), text_str = text_str b \<rparr> | a b.
        a \<in> set A \<and> b \<in> set B \<and> contains0 a b}"
  by (auto simp: merged_part_def merged_for_def)

text \<open>
  The second loop asks, for a field of the first set, whether some merged field lies
  inside it. That is the case exactly when the field contains a field of the second set.
\<close>

lemma paddle_matched_iff:
  assumes "a \<in> set A"
  shows "(\<exists>m\<in>set (merged_part A B). contains0 a m) \<longleftrightarrow> (\<exists>b\<in>set B. contains0 a b)"
proof
  assume "\<exists>m\<in>set (merged_part A B). contains0 a m"
  then obtain a' b where b: "b \<in> set B" and ab: "contains0 a' b"
    and m: "contains0 a \<lparr> bbox = merge (bbox a') (bbox b), text_str = text_str b \<rparr>"
    by (auto simp: set_merged_part)
  from ab m have "contains0 a b"
    by (simp add: contains0_def merge_absorb) (auto simp: inside0_iff)
  with b show "\<exists>b\<in>set B. contains0 a b" by blast
next
  assume "\<exists>b\<in>set B. contains0 a b"
  then obtain b where b: "b \<in> set B" and ab: "contains0 a b" by blast
  let ?m = "\<lparr> bbox = merge (bbox a) (bbox b), text_str = text_str b \<rparr>"
  from assms b ab have "?m \<in> set (merged_part A B)" by (auto simp: set_merged_part)
  moreover from ab have "contains0 a ?m"
    by (simp add: contains0_def merge_absorb) (simp add: inside0_iff)
  ultimately show "\<exists>m\<in>set (merged_part A B). contains0 a m" by blast
qed

lemma filter_empty_iff: "filter P xs = [] \<longleftrightarrow> \<not> (\<exists>x\<in>set xs. P x)"
  by (simp add: filter_empty_conv)

lemma passed_from_A_eq:
  "passed_from_A A B = filter (\<lambda>a. filter (\<lambda>b. contains0 a b) B = []) A"
  unfolding passed_from_A_def
  by (rule filter_cong) (simp_all add: paddle_matched_iff filter_empty_iff)

lemma merge_text_fields_eq:
  "merge_text_fields A B = merged_part A B @ unmatched_from_B A B @ passed_from_A A B"
  by (simp add: merge_text_fields_def merge_outer_eq unmatched_paddle_eq passed_from_A_def
      filter_empty_iff)

text \<open>
  With a field \<^verbatim>\<open>A2\<close> nested in \<^verbatim>\<open>A1\<close> and a field \<^verbatim>\<open>B1\<close> that lies in \<^verbatim>\<open>A1\<close>
  only, \<^verbatim>\<open>merge_text_fields\<close> returns the merged field, which has the box of \<^verbatim>\<open>A1\<close>,
  and \<^verbatim>\<open>A2\<close>. The field \<^verbatim>\<open>A2\<close> is contained in the merged field, so the three parts
  as the specification names them make up the merged field alone.
\<close>

theorem merge_text_fields_nested:
  "merge_text_fields nested_fields_ex inner_fields_ex =
     [field_at 0 0 100 100 ''B1'', field_at 50 50 60 60 ''A2'']
   \<and> merged_part nested_fields_ex inner_fields_ex @
       unmatched_from_B nested_fields_ex inner_fields_ex @
       unmatched_from_A nested_fields_ex inner_fields_ex =
     [field_at 0 0 100 100 ''B1'']"
  by (simp add: merge_text_fields_eq nested_fields_ex_def inner_fields_ex_def field_at_def
      mk_box_def contains0_def inside0_iff merge_def merged_part_def merged_for_def
      unmatched_from_A_def unmatched_from_B_def passed_from_A_def)

text \<open>
  C6, amended. \<^verbatim>\<open>merge_text_fields A B\<close> is the merged fields, then the fields of
  \<open>B\<close> that no field of \<open>A\<close> contains, then the fields of \<open>A\<close> inside which no
  merged field lies; these are the fields of \<open>A\<close> that contain no field of \<open>B\<close>. The
  merged fields are, for every field of \<open>B\<close> in order, one field for every field of
  \<open>A\<close> that contains it at tolerance 0, with the enclosing box and the text of the
  \<open>B\<close> field: as many as there are containing fields. Every field of \<open>A\<close> that is
  not contained in any merged field is among the fields of \<open>A\<close> passed through, and
  every field of \<open>B\<close> that no field of \<open>A\<close> contains is in the result.
\<close>

theorem merge_text_fields_parts:
  "merge_text_fields A B = merged_part A B @ unmatched_from_B A B @ passed_from_A A B
   \<and> passed_from_A A B = filter (\<lambda>a. filter (\<lambda>b. contains0 a b) B = []) A
   \<and> (\<forall>b. length (merged_for A b) = length (filter (\<lambda>a. contains0 a b) A))
   \<and> (\<forall>a\<in>set (unmatched_from_A A B). a \<in> set (passed_from_A A B))
   \<and> (\<forall>b\<in>set B. (\<forall>a\<in>set A. \<not> contains0 a b) \<longrightarrow> b \<in> set (merge_text_fields A B))"
proof (intro conjI allI ballI impI)
  show eq: "merge_text_fields A B = merged_part A B @ unmatched_from_B A B @ passed_from_A A B"
    by (rule merge_text_fields_eq)
  show "passed_from_A A B = filter (\<lambda>a. filter (\<lambda>b. contains0 a b) B = []) A"
    by (rule passed_from_A_eq)
  show "length (merged_for A b) = length (filter (\<lambda>a. contains0 a b) A)" for b
    by (simp add: merged_for_def)
  show "a \<in> set (passed_from_A A B)" if "a \<in> set (unmatched_from_A A B)" for a
  proof -
    from that have a: "a \<in> set A" and free: "\<forall>m\<in>set (merged_part A B). \<not> contains0 m a"
      by (simp_all add: unmatched_from_A_def filter_empty_iff)
    have "\<not> contains0 a b" if b: "b \<in> set B" for b
    proof
      assume ab: "contains0 a b"
      let ?m = "\<lparr> bbox = merge (bbox a) (bbox b), text_str = text_str b \<rparr>"
      from a b ab have "?m \<in> set (merged_part A B)" by (auto simp: set_merged_part)
      moreover from ab have "contains0 ?m a"
        by (simp add: contains0_def merge_absorb) (simp add: inside0_iff)
      ultimately show False using free by blast
    qed
    with a show ?thesis by (simp add: passed_from_A_eq filter_empty_iff)
  qed
  show "b \<in> set (merge_text_fields A B)"
    if "b \<in> set B" and "\<forall>a\<in>set A. \<not> contains0 a b" for b
  proof -
    from that have "b \<in> set (unmatched_from_B A B)"
      by (simp add: unmatched_from_B_def filter_empty_iff)
    then show ?thesis by (simp add: eq)
  qed
qed

text \<open>
  On the two example sets the field \<^verbatim>\<open>B1\<close> lies in \<^verbatim>\<open>A1\<close> and in \<^verbatim>\<open>A2\<close> and is
  emitted twice, \<^verbatim>\<open>B2\<close> and \<^verbatim>\<open>A3\<close> are passed through.
\<close>

theorem merge_text_fields_parts_witness:
  "merge_text_fields paddle_fields_ex poppler_fields_ex =
     [field_at 0 0 100 100 ''B1'', field_at 0 0 50 50 ''B1'',
      field_at 300 300 310 310 ''B2'', field_at 200 200 210 210 ''A3'']
   \<and> length (merged_for paddle_fields_ex (field_at 10 10 20 20 ''B1'')) = 2
   \<and> unmatched_from_A paddle_fields_ex poppler_fields_ex = [field_at 200 200 210 210 ''A3'']"
  using merge_text_fields_parts[of paddle_fields_ex poppler_fields_ex]
  by (simp add: paddle_fields_ex_def poppler_fields_ex_def field_at_def mk_box_def contains0_def
      inside0_iff merge_def merged_part_def merged_for_def unmatched_from_A_def
      unmatched_from_B_def)

section \<open>Properties of the line snapping\<close>

lemma upt2: "[0..<2] = [0, Suc 0]"
  by (simp add: upt_rec)

lemma three_bands_edges:
  "row_edges three_bands = [0, 10, 10, 20, 20, 30]"
  "col_edges three_bands = [0, 10, 10, 20, 20, 30]"
  by (simp_all add: row_edges_def col_edges_def three_bands_def mk_band_def mk_box_def)

lemma snap_abutting: "snap_lines [0, 10, 10, 20, 20, 30] = Inr [0, 5, 15, 30]"
  by (simp add: snap_lines_def lines_merged_def upt2)

text \<open>
  C1. For three abutting bands of 10 pixels in each direction, with the sorted edges
  0, 10, 10, 20, 20, 30, \<^verbatim>\<open>bordered_to_struct\<close> computes the lines 0, 5, 15, 30 in both
  directions: it takes the midpoints of the positions 0-1 and 2-3 of the whole sorted
  list. The reference, which pairs the interior positions 1-2 and 3-4, gives
  0, 10, 20, 30.
\<close>

theorem bordered_lines_three_bands:
  "bordered_lines three_bands = Inr ([0, 5, 15, 30], [0, 5, 15, 30])
   \<and> snap_reference (row_edges three_bands) = Inr [0, 10, 20, 30]
   \<and> snap_reference (col_edges three_bands) = Inr [0, 10, 20, 30]"
  by (simp add: bordered_lines_def three_bands_edges snap_abutting snap_reference_def)

text \<open>
  A snapped list is sorted, free of duplicates and not empty, and a snap of a list of
  \<open>n\<close> edges has at most \<open>2 + (n - 2) div 2\<close> edges.
\<close>

lemma snap_lines_sorted_distinct:
  assumes "snap_lines xs = Inr ys"
  shows "sorted ys \<and> distinct ys \<and> ys \<noteq> []"
proof -
  from assms have ys: "ys = sort (remdups (lines_merged (sort xs)))"
    by (simp add: snap_lines_def Let_def split: if_splits)
  have "lines_merged (sort xs) \<noteq> []" by (simp add: lines_merged_def)
  then have "set ys \<noteq> {}" unfolding ys by simp
  then have "ys \<noteq> []" by auto
  moreover have "sorted ys" "distinct ys" by (simp_all add: ys)
  ultimately show ?thesis by simp
qed

lemma snap_lines_length:
  assumes "snap_lines ys = Inr zs"
  shows "length zs \<le> 2 + (length ys - 2) div 2"
proof -
  from assms have zs: "zs = sort (remdups (lines_merged (sort ys)))"
    by (simp add: snap_lines_def Let_def split: if_splits)
  have "length zs \<le> length (lines_merged (sort ys))"
    unfolding zs using length_remdups_leq[of "lines_merged (sort ys)"] by simp
  then show ?thesis by (simp add: lines_merged_def)
qed

lemma snap_lines_short:
  assumes "sorted ys" "distinct ys" "ys \<noteq> []" "length ys \<le> 2"
  shows "snap_lines ys = Inr ys"
proof -
  consider a where "ys = [a]" | a b where "ys = [a, b]"
    using assms(3,4) by (cases ys; cases "tl ys"; auto)
  then show ?thesis
  proof cases
    case 1
    then show ?thesis by (simp add: snap_lines_def lines_merged_def)
  next
    case 2
    with assms(1,2) have "a < b" by auto
    with 2 show ?thesis by (simp add: snap_lines_def lines_merged_def)
  qed
qed

text \<open>
  The snap of the edges 0, 10, 10, 20, 20, 30 is 0, 5, 15, 30, and the snap of that list
  is 0, 2, 30. The reference snap is not idempotent either: it takes the same edges to
  0, 10, 20, 30 and those to 0, 15, 30.
\<close>

theorem snap_not_idempotent:
  "snap_lines [0, 10, 10, 20, 20, 30] = Inr [0, 5, 15, 30]
   \<and> snap_lines [0, 5, 15, 30] = Inr [0, 2, 30]
   \<and> snap_reference [0, 10, 10, 20, 20, 30] = Inr [0, 10, 20, 30]
   \<and> snap_reference [0, 10, 20, 30] = Inr [0, 15, 30]"
  by (simp add: snap_lines_def lines_merged_def upt2 snap_reference_def)

text \<open>
  C8, amended. Snapping an already-snapped edge list returns the same list exactly when
  that list has at most two edges.
\<close>

theorem snap_fixpoint_iff:
  assumes "snap_lines xs = Inr ys"
  shows "snap_lines ys = Inr ys \<longleftrightarrow> length ys \<le> 2"
proof
  assume "snap_lines ys = Inr ys"
  from snap_lines_length[OF this] show "length ys \<le> 2" by arith
next
  assume "length ys \<le> 2"
  with snap_lines_sorted_distinct[OF assms] show "snap_lines ys = Inr ys"
    by (simp add: snap_lines_short)
qed

theorem snap_fixpoint_iff_witness:
  "snap_lines [0, 10, 10, 20] = Inr [0, 5, 20] \<and> snap_lines [0, 5, 20] \<noteq> Inr [0, 5, 20]
   \<and> snap_lines [0, 10] = Inr [0, 10]"
proof -
  have a: "snap_lines [0, 10, 10, 20] = Inr [0, 5, 20]"
    by (simp add: snap_lines_def lines_merged_def)
  have b: "snap_lines [0, 10] = Inr [0, 10]"
    by (simp add: snap_lines_def lines_merged_def)
  from snap_fixpoint_iff[OF a] snap_fixpoint_iff[OF b] a b show ?thesis by simp
qed

section \<open>Properties of the classifier-based header\<close>

lemma analyse_iff:
  "analyse gcs line \<longleftrightarrow>
     (if length line > 5 then 5 * header_count gcs line > length line
      else 2 * header_count gcs line > length line)"
proof -
  have f: "(\<lambda>cell. case gcs cell of (h, c) \<Rightarrow> h > c) = (\<lambda>c. fst (gcs c) > snd (gcs c))"
    by (auto simp: fun_eq_iff split: prod.splits)
  have a: "(rat_of_nat n < rat_of_nat k * 5) = (n < 5 * k)" for n k :: nat
  proof -
    have "rat_of_nat k * 5 = rat_of_nat (5 * k)" by simp
    then show ?thesis by (simp only: of_nat_less_iff)
  qed
  have b: "(rat_of_nat n < rat_of_nat k * 2) = (n < 2 * k)" for n k :: nat
  proof -
    have "rat_of_nat k * 2 = rat_of_nat (2 * k)" by simp
    then show ?thesis by (simp only: of_nat_less_iff)
  qed
  show ?thesis
    unfolding analyse_def Let_def f header_count_def by (simp add: a b)
qed

text \<open>
  The loop of \<^verbatim>\<open>create_header\<close> records every scanned line and ends with the index of
  the last accepted one.
\<close>

lemma header_loop_eq:
  "header_loop gcs ps (hc, lh) =
     (hc @ map (\<lambda>(i, l). (i, analyse gcs l, l)) ps,
      (let hl = filter (\<lambda>(i, l). analyse gcs l) ps
       in if hl = [] then lh else Some (fst (last hl))))"
  by (induction ps arbitrary: hc lh) (auto simp: Let_def)

lemma enumerate_filter_positions:
  "map fst (filter (\<lambda>(i, l). P l) (enumerate 0 xs)) = filter (\<lambda>i. P (xs ! i)) [0..<length xs]"
proof -
  have "filter (\<lambda>(i, l). P l) (enumerate 0 xs) =
        filter ((\<lambda>i. P (xs ! i)) \<circ> fst) (enumerate 0 xs)"
    by (rule filter_cong) (auto simp: in_set_enumerate_eq)
  then have "map fst (filter (\<lambda>(i, l). P l) (enumerate 0 xs)) =
      filter (\<lambda>i. P (xs ! i)) (map fst (enumerate 0 xs))"
    by (simp only: filter_map)
  then show ?thesis by simp
qed

lemma positions_take:
  "filter (\<lambda>i. P (take n xs ! i)) [0..<length (take n xs)] =
   filter (\<lambda>i. P (xs ! i)) [0..<min n (length xs)]"
  by (rule filter_cong) (auto simp: min_def split: if_splits)

lemma third_of_candidates:
  "map (\<lambda>(idx, is_header, line). line) (map (\<lambda>(i, l). (i, P l, l)) ps) = map snd ps"
  by (induction ps) auto

lemma last_position_bound:
  assumes "header_like_positions gcs series limit \<noteq> []"
  shows "last (header_like_positions gcs series limit) < min limit (length series)"
proof -
  have "last (header_like_positions gcs series limit)
          \<in> set (header_like_positions gcs series limit)"
    using assms by (rule last_in_set)
  then show ?thesis by (simp add: header_like_positions_def)
qed

lemma create_header_eq:
  "create_header gcs series limit sink =
     (let ps = header_like_positions gcs series limit;
          h = (if ps = [] then [] else take (last ps + 1) series)
      in if 4 * length h > 3 * length series then ([], sink @ [series]) else (h, sink))"
proof -
  let ?en = "enumerate 0 (take limit series)"
  let ?hl = "filter (\<lambda>(i, l). analyse gcs l) ?en"
  let ?ps = "header_like_positions gcs series limit"
  have ps: "map fst ?hl = ?ps"
    unfolding enumerate_filter_positions header_like_positions_def by (rule positions_take)
  then have empty: "?hl = [] \<longleftrightarrow> ?ps = []" by (metis map_is_Nil_conv)
  have lastp: "fst (last ?hl) = last ?ps" if "?hl \<noteq> []"
    using that ps by (metis last_map)
  have hdr: "map (\<lambda>(idx, is_header, line). line)
               (take (l + 1) (map (\<lambda>(i, l). (i, analyse gcs l, l)) ?en)) = take (l + 1) series"
    if "l < min limit (length series)" for l
  proof -
    have "map (\<lambda>(idx, is_header, line). line)
               (take (l + 1) (map (\<lambda>(i, l). (i, analyse gcs l, l)) ?en)) =
          take (l + 1) (map snd ?en)"
      by (simp only: take_map[symmetric] third_of_candidates)
    also have "\<dots> = take (l + 1) (take limit series)" by simp
    also have "\<dots> = take (l + 1) series"
      using that by (auto simp: min_def split: if_splits)
    finally show ?thesis .
  qed
  have ratcmp: "((3 / 4) * rat_of_nat n < rat_of_nat k) = (3 * n < 4 * k)" for n k :: nat
  proof -
    have "((3 / 4) * rat_of_nat n < rat_of_nat k) = (rat_of_nat (3 * n) < rat_of_nat (4 * k))"
      by (simp add: field_simps)
    then show ?thesis by (simp only: of_nat_less_iff)
  qed
  show ?thesis
  proof (cases "?ps = []")
    case True
    then have "?hl = []" using empty by simp
    with True show ?thesis
      by (simp add: create_header_def header_loop_eq Let_def)
  next
    case False
    then have ne: "?hl \<noteq> []" using empty by simp
    from last_position_bound[OF False] have "last ?ps < min limit (length series)" .
    from hdr[OF this] ne False lastp[OF ne] show ?thesis
      by (simp add: create_header_def header_loop_eq Let_def ratcmp del: of_nat_mult of_nat_add)
  qed
qed

text \<open>
  C7. A line is header-like exactly when the number of its cells whose header score
  exceeds the body score is greater than a fifth of its length, for a line of more than 5
  cells, or greater than half of its length otherwise. \<^verbatim>\<open>create_header\<close> looks at the
  first \<open>limit\<close> lines only: the header is the lines 0 up to and including the last
  header-like line among them, empty when none is header-like, and empty (with the series
  written to the diagnostic file) when it would hold more than 75% of all lines. For ten
  lines of which exactly the lines 0, 1, 2 and 4 of the first 6 are header-like, the
  header is the lines 0 to 4.
\<close>

theorem classifier_header:
  "(analyse gcs line \<longleftrightarrow>
      (if length line > 5 then 5 * header_count gcs line > length line
       else 2 * header_count gcs line > length line))
   \<and> create_header gcs series limit sink =
       (let ps = header_like_positions gcs series limit;
            h = (if ps = [] then [] else take (last ps + 1) series)
        in if 4 * length h > 3 * length series then ([], sink @ [series]) else (h, sink))
   \<and> (length series = 10 \<and> header_like_positions gcs series 6 = [0, 1, 2, 4] \<longrightarrow>
        fst (create_header gcs series 6 sink) = take 5 series)"
  using analyse_iff[of gcs line] create_header_eq[of gcs series limit sink]
  by (simp add: create_header_eq)

lemma upt6: "[0..<6] = [0, 1, 2, 3, 4, 5]"
  by (simp add: upt_rec)

theorem classifier_header_witness:
  "fst (create_header flag_score ten_rows 6 []) = [[True], [True], [True], [False], [True]]"
proof -
  have a: "analyse flag_score [True]" "\<not> analyse flag_score [False]"
    by (simp_all add: analyse_def flag_score_def)
  have p: "header_like_positions flag_score ten_rows 6 = [0, 1, 2, 4]"
    by (simp add: header_like_positions_def ten_rows_def upt6 a)
  have l: "length ten_rows = 10" by (simp add: ten_rows_def)
  from classifier_header[of flag_score _ ten_rows _ "[]"] p l
  have "fst (create_header flag_score ten_rows 6 []) = take 5 ten_rows" by blast
  then show ?thesis by (simp add: ten_rows_def)
qed

section \<open>Properties of the page processing\<close>

lemma rep4: "replicate 4 x = [x, x, x, x]"
  by (simp add: numeral_eq_Suc)

lemma rep5: "replicate 5 x = [x, x, x, x, x]"
  by (simp add: numeral_eq_Suc)

lemma rep6: "replicate 6 x = [x, x, x, x, x, x]"
  by (simp add: numeral_eq_Suc)

lemmas demo_simps = demo_env_def borderless_region_def lined_table_def band_of_def
  plain_table_def mk_box_def rep4 rep5 rep6



lemma adopt_bordered_iff:
  "adopt_bordered bs s bc cc \<longleftrightarrow> 2 * bs \<ge> s \<and> 2 * bc \<ge> cc"
proof -
  have a: "(rat_of_int s * (1 / 2) \<le> rat_of_int bs) = (s \<le> 2 * bs)"
  proof -
    have "(rat_of_int s * (1 / 2) \<le> rat_of_int bs) = (rat_of_int s \<le> rat_of_int (2 * bs))"
      by (simp add: field_simps)
    then show ?thesis by (simp only: of_int_le_iff)
  qed
  have b: "(rat_of_nat cc * (1 / 2) \<le> rat_of_nat bc) = (cc \<le> 2 * bc)"
  proof -
    have "(rat_of_nat cc * (1 / 2) \<le> rat_of_nat bc) = (rat_of_nat cc \<le> rat_of_nat (2 * bc))"
      by (simp add: field_simps)
    then show ?thesis by (simp only: of_nat_le_iff)
  qed
  show ?thesis unfolding adopt_bordered_def a b ..
qed

lemma banded_edges:
  "row_edges (banded_table y) = [0, y, y, 100]" "col_edges (banded_table y) = [0, y, y, 100]"
  by (simp_all add: row_edges_def col_edges_def banded_table_def band_of_def mk_band_def
      mk_box_def)

lemma snap_two_bands:
  "snap_lines [0, 50, 50, 100] = Inr [0, 25, 100]" "snap_lines [0, 30, 30, 100] = Inr [0, 15, 100]"
  by (simp_all add: snap_lines_def lines_merged_def)

lemma candidate_inside_demo:
  "candidate_inside (demo_env k [] []) \<lparr> tbl_bbox = mk_box 0 0 100 100, tbl_rows = rs,
            tbl_cols = cs, count_cells = n \<rparr>
        (10, plain_table (mk_box 10 10 50 50) 8)"
  "candidate_inside (no_table_env k) \<lparr> tbl_bbox = mk_box 0 0 100 100, tbl_rows = rs,
            tbl_cols = cs, count_cells = n \<rparr>
        (10, plain_table (mk_box 10 10 50 50) 8)"
  by (simp_all add: candidate_inside_def box_is_inside_another_def width_def height_def
      no_table_env_def demo_env_def plain_table_def mk_box_def)

text \<open>
  A candidate with the score 10 and 8 cells inside a bordered table of 4 cells, with the
  bordered score 5. When the table builder returns no table, the candidate is removed from
  the pending list and the page receives nothing. When it returns a table, the page
  receives the table built from the cells of the row bands: two bordered tables with the
  same cells whose bands meet at 50 and at 30, and whose snapped lines are 0, 25, 100 and
  0, 15, 100, give the same table.
\<close>

theorem bordered_adoption_not_line_snapped:
  "bordered_step (no_table_env 5) (lined_table (mk_box 0 0 100 100) 4)
      ([], [], [(10, plain_table (mk_box 10 10 50 50) 8)], []) =
     ([], [], [], [Ev_extract_table_text (mk_box 10 10 50 50)])
   \<and> bordered_lines (banded_table 50) = Inr ([0, 25, 100], [0, 25, 100])
   \<and> bordered_lines (banded_table 30) = Inr ([0, 15, 100], [0, 15, 100])
   \<and> bordered_step (demo_env 5 [] []) (banded_table 50)
      ([], [], [(10, plain_table (mk_box 10 10 50 50) 8)], []) =
     ([plain_table (mk_box 0 0 100 100) 4], [], [], [Ev_extract_table_text (mk_box 10 10 50 50)])
   \<and> bordered_step (demo_env 5 [] []) (banded_table 30)
      ([], [], [(10, plain_table (mk_box 10 10 50 50) 8)], []) =
     ([plain_table (mk_box 0 0 100 100) 4], [], [], [Ev_extract_table_text (mk_box 10 10 50 50)])"
proof -
  have a: "bordered_step (no_table_env 5) (lined_table (mk_box 0 0 100 100) 4)
      ([], [], [(10, plain_table (mk_box 10 10 50 50) 8)], []) =
     ([], [], [], [Ev_extract_table_text (mk_box 10 10 50 50)])"
    by (simp add: bordered_step_def lined_table_def candidate_inside_demo)
       (simp add: reconcile_def match_cells_table_def semi_border_to_struct_def
        adopt_bordered_def no_table_env_def Let_def demo_simps)
  have b: "bordered_step (demo_env 5 [] []) (banded_table y)
      ([], [], [(10, plain_table (mk_box 10 10 50 50) 8)], []) =
     ([plain_table (mk_box 0 0 100 100) 4], [], [], [Ev_extract_table_text (mk_box 10 10 50 50)])"
    for y
    by (simp add: bordered_step_def banded_table_def candidate_inside_demo)
       (simp add: reconcile_def match_cells_table_def semi_border_to_struct_def
        adopt_bordered_def Let_def demo_simps numeral_eq_Suc)
  have c: "bordered_lines (banded_table 50) = Inr ([0, 25, 100], [0, 25, 100])"
    "bordered_lines (banded_table 30) = Inr ([0, 15, 100], [0, 15, 100])"
    by (simp_all add: bordered_lines_def banded_edges snap_two_bands)
  from a b c show ?thesis by simp
qed

text \<open>
  C5, amended. When the first pending candidate that lies inside a bordered table has the
  score \<open>score\<close>, the table that \<^verbatim>\<open>construct_table_from_cells\<close> builds from the cells
  of the row bands of the bordered table is chosen exactly when twice the bordered score
  is at least the candidate's score and twice the cell count of the bordered table is at
  least the number of the candidate's cells (both bounds included); the page receives the
  chosen table when the builder returns one and nothing when it returns none. Otherwise
  the page receives the candidate itself. In every case the pair of the candidate is
  removed from the pending list.
\<close>

theorem bordered_adoption:
  assumes "find (candidate_inside env bt) detected = Some (score, cand)"
    and "reconcile env (st_bbox cand) pool = (in_table, pool')"
    and "match_cells_table env in_table bt = bordered_score"
  shows "bordered_step env bt (page_tables, pool, detected, evs) =
           (page_tables @
              (if 2 * bordered_score \<ge> score \<and> 2 * count_cells bt \<ge> length (cells cand)
               then (case construct_table_from_cells env (tbl_bbox bt)
                            (concat (map objs (tbl_rows bt))) (img_shape env) of
                       Some struct_table \<Rightarrow> [struct_table]
                     | None \<Rightarrow> [])
               else [cand]),
            pool', remove1 (score, cand) detected,
            evs @ [Ev_extract_table_text (st_bbox cand)])
         \<and> (score, cand) \<in> set detected
         \<and> length (remove1 (score, cand) detected) = length detected - 1"
proof -
  from assms(1) have mem: "(score, cand) \<in> set detected"
    by (auto simp: find_Some_iff)
  from assms show ?thesis
    by (simp add: bordered_step_def Let_def adopt_bordered_iff mem length_remove1
        semi_border_to_struct_def split: option.splits)
qed

text \<open>
  A candidate with the score 10 and 8 cells inside a bordered table of 4 cells: with the
  bordered score 5 the table built from the bordered table replaces it, with the bordered
  score 4 the candidate is kept; the pending list is empty afterwards.
\<close>

theorem bordered_adoption_witness:
  "bordered_step (demo_env 5 [] []) (lined_table (mk_box 0 0 100 100) 4)
      ([], [], [(10, plain_table (mk_box 10 10 50 50) 8)], []) =
     ([plain_table (mk_box 0 0 100 100) 4], [], [], [Ev_extract_table_text (mk_box 10 10 50 50)])
   \<and> bordered_step (demo_env 4 [] []) (lined_table (mk_box 0 0 100 100) 4)
      ([], [], [(10, plain_table (mk_box 10 10 50 50) 8)], []) =
     ([plain_table (mk_box 10 10 50 50) 8], [], [], [Ev_extract_table_text (mk_box 10 10 50 50)])"
proof -
  let ?bt = "lined_table (mk_box 0 0 100 100) 4"
  let ?cand = "plain_table (mk_box 10 10 50 50) 8"
  have f: "find (candidate_inside (demo_env k [] []) ?bt) [(10, ?cand)] = Some (10, ?cand)" for k
    by (simp add: lined_table_def candidate_inside_demo)
  have st: "construct_table_from_cells (demo_env k [] []) (tbl_bbox ?bt)
              (concat (map objs (tbl_rows ?bt))) (img_shape (demo_env k [] [])) =
            Some (plain_table (mk_box 0 0 100 100) 4)" for k
    by (simp add: demo_simps)
  have rc: "reconcile (demo_env k [] []) (st_bbox ?cand) [] = ([], [])" for k
    by (simp add: reconcile_def demo_env_def)
  have ms: "match_cells_table (demo_env k [] []) [] ?bt = k" for k
    by (simp add: match_cells_table_def demo_simps)
  have n: "length (cells ?cand) = 8" "count_cells ?bt = 4" "st_bbox ?cand = mk_box 10 10 50 50"
    by (simp_all add: plain_table_def lined_table_def)
  from bordered_adoption[OF f rc ms, of 5 "[]" "[]"]
       bordered_adoption[OF f rc ms, of 4 "[]" "[]"] n st
  show ?thesis by simp
qed

text \<open>
  For comparison, a page with one region: the table of the region becomes a block, the
  strip below it is read in sparse-text mode and its text becomes the last block.
\<close>

lemma region_step_demo:
  "region_step (demo_env 5 [borderless_region] []) borderless_region
     ([narrow_field], [], [Ev_inference_image]) =
     ([narrow_field], [(5, plain_table (mk_box 0 0 90 90) 6)],
      [Ev_inference_image, Ev_extract_table_text (mk_box 0 0 100 100),
       Ev_semi_bordered (mk_box 0 0 100 100)])"
  by (simp add: region_step_def reconcile_def match_cells_table_def semi_border_to_struct_def
      Let_def demo_simps)

lemma final_tables_demo:
  "final_tables (demo_env 5 [borderless_region] []) False [narrow_field]
     [(5, plain_table (mk_box 0 0 90 90) 6)] = ([plain_table (mk_box 0 0 90 90) 6], [])"
  by (simp add: final_tables_def quality_gate_def plain_table_def)

lemma text_candidate_boxes_demo:
  "text_candidate_boxes (demo_env 5 [borderless_region] [])
     [\<lparr> sh_bbox = mk_box 0 0 90 90, sh_cells = cs, header = [] \<rparr>] =
   [mk_box 1 90 800 1000]"
  by (simp add: text_candidate_boxes_def text_borders_def demo_env_def mk_box_def upt2)

lemma with_headers_demo:
  "with_headers (demo_env 5 [borderless_region] [])
     \<lparr> st_bbox = b, cells = cs, rows = [], cols = [] \<rparr> =
   \<lparr> sh_bbox = b, sh_cells = cs, header = [] \<rparr>"
  by (simp add: with_headers_def create_header_def from_structured_and_rows_def demo_env_def)

lemma actualize_text_demo:
  "fst (actualize_text (demo_env 5 [borderless_region] []) (plain_table b n)) =
     \<lparr> st_bbox = b,
       cells = map (actualize_cell (demo_env 5 [borderless_region] [])) (replicate n grid_cell),
       rows = [], cols = [] \<rparr>"
  by (simp add: actualize_text_def plain_table_def)

lemma free_text_demo:
  "free_text (demo_env 5 [borderless_region] []) [mk_box 1 90 800 1000] =
    ([field_at 1 90 800 1000 ''free text''], [Ev_extract_sparse (mk_box 1 90 800 1000)])"
  by (simp add: free_text_def demo_env_def field_at_def)

lemma process_page_with_region:
  "map_sum id (\<lambda>(d, evs). (last (pd_blocks d), last evs))
     (process_page (demo_env 5 [borderless_region] [])) =
   Inr (Text_dict \<lparr> bd_left = 1, bd_top = 90, bd_height = 910, bd_width = 799 \<rparr> ''free text'',
        Ev_extract_sparse (mk_box 1 90 800 1000))"
proof -
  let ?env = "demo_env 5 [borderless_region] []"
  have sc: "scale_poppler_result ?env = Inr [narrow_field]"
    by (simp add: scale_poppler_result_def demo_env_def)
  have inf: "inference_image ?env = [borderless_region]" by (simp add: demo_env_def)
  have lab: "label borderless_region = ''Borderless''" by (simp add: borderless_region_def)
  have "process_page ?env =
      Inr (page_to_dict
             ((new_page 1 (mk_box 0 0 800 1000))
                \<lparr> tables := [\<lparr> sh_bbox = mk_box 0 0 90 90,
                               sh_cells = map (actualize_cell ?env) (replicate 6 grid_cell),
                               header = [] \<rparr>],
                  texts := [field_at 1 90 800 1000 ''free text''] \<rparr>),
           [Ev_inference_image, Ev_extract_table_text (mk_box 0 0 100 100),
            Ev_semi_bordered (mk_box 0 0 100 100)] @
           snd (actualize_text ?env (plain_table (mk_box 0 0 90 90) 6)) @
           [Ev_extract_sparse (mk_box 1 90 800 1000)])"
    apply (simp add: process_page_def sc inf lab Let_def region_step_demo final_tables_demo)
    apply (simp add: actualize_text_demo with_headers_demo text_candidate_boxes_demo free_text_demo)
    apply (simp add: demo_env_def mk_box_def)
    done
  then show ?thesis
    by (simp add: page_to_dict_def page_blocks_def new_page_def text_to_dict_def field_at_def
        box_to_dict_def width_def height_def mk_box_def)
qed

text \<open>
  C10. When the text layer has been scaled and the region detector returns no region,
  \<^verbatim>\<open>process_page\<close> returns the page with its number, its box and an empty list of
  blocks, and the only collaborator event is the call of the region detector: the
  classical detector and the recognition engine are not called.
\<close>

theorem no_regions_empty_page:
  assumes "scale_poppler_result env = Inr text_fields"
    and "inference_image env = []"
  shows "process_page env =
     Inr (\<lparr> pd_page_num = image_page_num env,
            pd_bbox = \<lparr> bd_left = 0, bd_top = 0, bd_height = fst (img_shape env),
                        bd_width = snd (img_shape env) \<rparr>,
            pd_blocks = [] \<rparr>,
          [Ev_inference_image])"
  using assms
  by (simp add: process_page_def Let_def page_to_dict_def new_page_def page_blocks_def
      box_to_dict_def height_def width_def)

text \<open>
  A page whose text layer holds a field, on which the recognition engine would read text
  and the classical detector would find a table, is emitted without blocks.
\<close>

theorem no_regions_empty_page_witness:
  "process_page (demo_env 5 [] [lined_table (mk_box 0 0 100 100) 4]) =
     Inr (\<lparr> pd_page_num = 1,
            pd_bbox = \<lparr> bd_left = 0, bd_top = 0, bd_height = 1000, bd_width = 800 \<rparr>,
            pd_blocks = [] \<rparr>,
          [Ev_inference_image])"
proof -
  let ?env = "demo_env 5 [] [lined_table (mk_box 0 0 100 100) 4]"
  have sc: "scale_poppler_result ?env = Inr [narrow_field]"
    by (simp add: scale_poppler_result_def demo_env_def)
  have inf: "inference_image ?env = []" by (simp add: demo_env_def)
  from no_regions_empty_page[OF sc inf] show ?thesis by (simp add: demo_env_def)
qed

end
